theory Spec2Isabelle
  imports Complex_Main "HOL-Library.Multiset"
begin

section \<open>Data model (app/models/task.py, app/api/v1/tasks.py)\<close>

text \<open>
  Identifiers (UUID columns, the token's \<open>sub\<close>) are strings: \<open>str(task.clientId)\<close> is the
  canonical text of the UUID and the model stores that text. Timestamps are natural numbers
  (a clock reading); \<open>.isoformat()\<close> is the identity on them. A \<open>float\<close> is the real number
  it stands for, so the model covers the finite doubles (not the infinities and NaN).
  Comparisons of doubles are exact; a product of doubles is the exact product rounded to
  the nearest double.
\<close>

datatype TaskStatus =
  CREATED | ASSIGNED | EN_ROUTE | ON_SITE | IN_PROGRESS | COMPLETED | CANCELLED | DISPUTED

datatype TaskPriority = LOW | MEDIUM | HIGH | URGENT

text \<open>A row of table \<open>tasks\<close> (class \<open>Task\<close>). Column \<open>id\<close> is \<open>id'\<close> here.\<close>

record Task =
  id' :: string
  title :: string
  description :: string
  clientId :: string
  taskerId :: "string option"
  categoryId :: string
  addressId :: string
  scheduledAt :: nat
  durationEstMins :: int
  status :: TaskStatus
  priority :: TaskPriority
  isUrgent :: bool
  priceGHS :: real
  platformFeeGHS :: real
  currency :: string
  location :: "string option"
  coordinates :: "string option"
  requirements :: "string option"
  images :: "string option"
  completionNotes :: "string option"
  createdAt :: nat
  updatedAt :: "nat option"

text \<open>The table: its rows, in insertion order.\<close>

type_synonym db = "Task list"

text \<open>Class \<open>TaskCreateRequest\<close>; fields carry the prefix \<open>c_\<close>.\<close>

record TaskCreateRequest =
  c_title :: string
  c_description :: string
  c_categoryId :: string
  c_addressId :: string
  c_scheduledAt :: nat
  c_durationEstMins :: int
  c_priceGHS :: real
  c_priority :: TaskPriority
  c_isUrgent :: bool
  c_location :: "string option"
  c_requirements :: "string option"

text \<open>Class \<open>TaskUpdateRequest\<close>; fields carry the prefix \<open>u_\<close>. \<open>None\<close> is an absent field.\<close>

record TaskUpdateRequest =
  u_title :: "string option"
  u_description :: "string option"
  u_scheduledAt :: "nat option"
  u_durationEstMins :: "int option"
  u_priceGHS :: "real option"
  u_priority :: "TaskPriority option"
  u_isUrgent :: "bool option"
  u_status :: "TaskStatus option"


text \<open>The dictionary \<open>get_current_user\<close> returns: the token's \<open>sub\<close> and \<open>role\<close> claims.\<close>

record current_user =
  user_id :: string
  role :: string

text \<open>
  What an endpoint raises. A pydantic validator's \<open>ValueError\<close> and a violated \<open>Query\<close>
  bound reach the caller as the framework's request validation error, which lists the
  failed checks; every other failure is an \<open>HTTPException\<close> with its status code.
\<close>

datatype issue =
  TitleTooShort | DescriptionTooShort | PriceBelowMinimum | PageOutOfRange | LimitOutOfRange

datatype error = RequestValidationError "issue list" | HTTPException nat

section \<open>Double-precision arithmetic\<close>

text \<open>Python's \<open>int.bit_length\<close>: the number of binary digits of \<open>n\<close>.\<close>

fun bit_length :: "nat \<Rightarrow> nat" where
  "bit_length n = (if n = 0 then 0 else Suc (bit_length (n div 2)))"

declare bit_length.simps [simp del]

text \<open>For \<open>x > 0\<close>, the integer \<open>e\<close> with \<open>2 powi e \<le> x < 2 powi (e + 1)\<close>.\<close>

definition binary_exponent :: "real \<Rightarrow> int" where
  "binary_exponent x =
     (if 1 \<le> x then int (bit_length (nat \<lfloor>x\<rfloor>)) - 1
      else - int (bit_length (nat (\<lceil>1 / x\<rceil> - 1))))"

text \<open>The nearest integer, a tie going to the even one.\<close>

definition round_half_even :: "real \<Rightarrow> int" where
  "round_half_even y =
     (let f = \<lfloor>y\<rfloor> in
      if y - of_int f < 1 / 2 then f
      else if 1 / 2 < y - of_int f then f + 1
      else if even f then f else f + 1)"

text \<open>
  IEEE 754 binary64 rounding to nearest, ties to even: a double has 53 significant bits,
  so the doubles around \<open>x\<close> are the multiples of \<open>2\<close> to the power \<open>binary_exponent x - 52\<close>
  (of \<open>2\<close> to the power \<open>-1074\<close> among the subnormal numbers). A result beyond the largest
  double is not modelled; multiplying a double by 0.05 cannot produce one.
\<close>

definition round_to_double :: "real \<Rightarrow> real" where
  "round_to_double x =
     (if x = 0 then 0
      else let ulp = 2 powi (max (binary_exponent \<bar>x\<bar> - 52) (- 1074))
           in sgn x * of_int (round_half_even (\<bar>x\<bar> / ulp)) * ulp)"

text \<open>The operator \<open>*\<close> on two floats.\<close>

definition float_mul :: "real \<Rightarrow> real \<Rightarrow> real" where
  "float_mul x y = round_to_double (x * y)"

section \<open>Creating a task\<close>

definition validate_title :: "string \<Rightarrow> issue list" where
  "validate_title v = (if length v < 5 then [TitleTooShort] else [])"

definition validate_description :: "string \<Rightarrow> issue list" where
  "validate_description v = (if length v < 20 then [DescriptionTooShort] else [])"

definition validate_price :: "real \<Rightarrow> issue list" where
  "validate_price v = (if v < 10 then [PriceBelowMinimum] else [])"

text \<open>Parsing the body runs every field's validator and collects the failures.\<close>

definition validate_create :: "TaskCreateRequest \<Rightarrow> issue list" where
  "validate_create request =
     validate_title (c_title request) @ validate_description (c_description request)
       @ validate_price (c_priceGHS request)"

text \<open>
  The dictionary \<open>task_data\<close> of \<open>create_task\<close>, as the row the INSERT stores: the columns
  the statement does not name take their defaults (\<open>taskerId\<close> and the other nullable
  columns NULL, \<open>createdAt\<close> the server's clock). The literal \<open>0.05\<close> is the double
  nearest to one twentieth.
\<close>

definition task_data :: "string \<Rightarrow> nat \<Rightarrow> current_user \<Rightarrow> TaskCreateRequest \<Rightarrow> Task" where
  "task_data new_id now cu request =
     (let platform_fee = float_mul (c_priceGHS request) (round_to_double 0.05) in
      \<lparr> id' = new_id,
        title = c_title request,
        description = c_description request,
        clientId = user_id cu,
        taskerId = None,
        categoryId = c_categoryId request,
        addressId = c_addressId request,
        scheduledAt = c_scheduledAt request,
        durationEstMins = c_durationEstMins request,
        status = CREATED,
        priority = c_priority request,
        isUrgent = c_isUrgent request,
        priceGHS = c_priceGHS request,
        platformFeeGHS = platform_fee,
        currency = ''GHS'',
        location = c_location request,
        coordinates = None,
        requirements = c_requirements request,
        images = None,
        completionNotes = None,
        createdAt = now,
        updatedAt = None \<rparr>)"

text \<open>
  \<open>create_task\<close>: \<open>new_id\<close> is the value of \<open>uuid.uuid4()\<close> and \<open>now\<close> the server's clock.
  The body is validated before the handler runs. An INSERT whose id is already a primary
  key of the table raises, and the handler turns every exception into status 500.
\<close>

definition create_task ::
  "db \<Rightarrow> string \<Rightarrow> nat \<Rightarrow> TaskCreateRequest \<Rightarrow> current_user \<Rightarrow> (error + string) \<times> db" where
  "create_task d new_id now request cu =
     (case validate_create request of
        i # rest \<Rightarrow> (Inl (RequestValidationError (i # rest)), d)
      | [] \<Rightarrow>
          if new_id \<in> set (map id' d) then (Inl (HTTPException 500), d)
          else (Inr new_id, d @ [task_data new_id now cu request]))"

section \<open>Updating a task\<close>

text \<open>One entry of \<open>update_fields\<close> together with its bound parameter.\<close>

datatype assignment =
  SetTitle string | SetDescription string | SetScheduledAt nat | SetDurationEstMins int
| SetPriceGHS real | SetPriority TaskPriority | SetIsUrgent bool | SetStatus TaskStatus

fun assign :: "assignment \<Rightarrow> Task \<Rightarrow> Task" where
  "assign (SetTitle v) t = t\<lparr>title := v\<rparr>"
| "assign (SetDescription v) t = t\<lparr>description := v\<rparr>"
| "assign (SetScheduledAt v) t = t\<lparr>scheduledAt := v\<rparr>"
| "assign (SetDurationEstMins v) t = t\<lparr>durationEstMins := v\<rparr>"
| "assign (SetPriceGHS v) t = t\<lparr>priceGHS := v\<rparr>"
| "assign (SetPriority v) t = t\<lparr>priority := v\<rparr>"
| "assign (SetIsUrgent v) t = t\<lparr>isUrgent := v\<rparr>"
| "assign (SetStatus v) t = t\<lparr>status := v\<rparr>"

text \<open>
  The chain of \<open>if request.f:\<close> tests. Python's truth value of an optional field: \<open>None\<close>,
  the empty string, the integer 0 and the float 0.0 are false; a datetime and a member of
  the string enums (whose values are non-empty) are true. \<open>isUrgent\<close> is tested with
  \<open>is not None\<close>.
\<close>

definition update_fields :: "TaskUpdateRequest \<Rightarrow> assignment list" where
  "update_fields request =
     (case u_title request of Some v \<Rightarrow> if v \<noteq> [] then [SetTitle v] else [] | None \<Rightarrow> [])
   @ (case u_description request of
        Some v \<Rightarrow> if v \<noteq> [] then [SetDescription v] else [] | None \<Rightarrow> [])
   @ (case u_scheduledAt request of Some v \<Rightarrow> [SetScheduledAt v] | None \<Rightarrow> [])
   @ (case u_durationEstMins request of
        Some v \<Rightarrow> if v \<noteq> 0 then [SetDurationEstMins v] else [] | None \<Rightarrow> [])
   @ (case u_priceGHS request of
        Some v \<Rightarrow> if v \<noteq> 0 then [SetPriceGHS v] else [] | None \<Rightarrow> [])
   @ (case u_priority request of Some v \<Rightarrow> [SetPriority v] | None \<Rightarrow> [])
   @ (case u_isUrgent request of Some v \<Rightarrow> [SetIsUrgent v] | None \<Rightarrow> [])
   @ (case u_status request of Some v \<Rightarrow> [SetStatus v] | None \<Rightarrow> [])"

text \<open>\<open>SELECT * FROM tasks WHERE id = :task_id\<close> followed by \<open>fetchone()\<close>.\<close>

definition fetchone :: "db \<Rightarrow> string \<Rightarrow> Task option" where
  "fetchone d task_id = find (\<lambda>t. id' t = task_id) d"

text \<open>\<open>UPDATE tasks SET ... WHERE id = :task_id\<close>: every row with that id is rewritten.\<close>

definition update_where_id :: "(Task \<Rightarrow> Task) \<Rightarrow> string \<Rightarrow> db \<Rightarrow> db" where
  "update_where_id f task_id d = map (\<lambda>t. if id' t = task_id then f t else t) d"

definition set_fields :: "assignment list \<Rightarrow> nat \<Rightarrow> Task \<Rightarrow> Task" where
  "set_fields fs now t = (fold assign fs t)\<lparr>updatedAt := Some now\<rparr>"

text \<open>\<open>str(task.taskerId)\<close>: the text of the id, and \<open>''None''\<close> for a NULL column.\<close>

definition str_opt :: "string option \<Rightarrow> string" where
  "str_opt x = (case x of None \<Rightarrow> ''None'' | Some s \<Rightarrow> s)"

definition update_task ::
  "db \<Rightarrow> nat \<Rightarrow> string \<Rightarrow> TaskUpdateRequest \<Rightarrow> current_user \<Rightarrow> (error + unit) \<times> db" where
  "update_task d now task_id request cu =
     (case fetchone d task_id of
        None \<Rightarrow> (Inl (HTTPException 404), d)
      | Some task \<Rightarrow>
          if (role cu = ''CLIENT'' \<and> clientId task \<noteq> user_id cu)
             \<and> (role cu = ''TASKER'' \<and> str_opt (taskerId task) \<noteq> user_id cu)
          then (Inl (HTTPException 403), d)
          else (case update_fields request of
                  [] \<Rightarrow> (Inl (HTTPException 400), d)
                | f # fs \<Rightarrow> (Inr (), update_where_id (set_fields (f # fs) now) task_id d)))"

section \<open>Cancelling a task\<close>

definition delete_task :: "db \<Rightarrow> nat \<Rightarrow> string \<Rightarrow> current_user \<Rightarrow> (error + unit) \<times> db" where
  "delete_task d now task_id cu =
     (case fetchone d task_id of
        None \<Rightarrow> (Inl (HTTPException 404), d)
      | Some task \<Rightarrow>
          if clientId task \<noteq> user_id cu then (Inl (HTTPException 403), d)
          else (Inr (),
                update_where_id (\<lambda>t. t\<lparr>status := CANCELLED, updatedAt := Some now\<rparr>) task_id d))"

section \<open>Listing tasks\<close>









section \<open>Example data\<close>

definition example_task :: Task where
  "example_task =
     \<lparr> id' = ''t1'', title = ''Clean my flat'',
       description = ''Two rooms and a kitchen to clean'',
       clientId = ''u1'', taskerId = None, categoryId = ''CLEANING'', addressId = ''a1'',
       scheduledAt = 100, durationEstMins = 60, status = CREATED, priority = MEDIUM,
       isUrgent = False, priceGHS = 100, platformFeeGHS = 5, currency = ''GHS'',
       location = None, coordinates = None, requirements = None, images = None,
       completionNotes = None, createdAt = 1, updatedAt = None \<rparr>"

definition example_db :: db where
  "example_db = [example_task]"

definition empty_patch :: TaskUpdateRequest where
  "empty_patch =
     \<lparr> u_title = None, u_description = None, u_scheduledAt = None,
       u_durationEstMins = None, u_priceGHS = None, u_priority = None, u_isUrgent = None,
       u_status = None \<rparr>"

definition owner :: current_user where
  "owner = \<lparr> user_id = ''u1'', role = ''CLIENT'' \<rparr>"

definition other_client :: current_user where
  "other_client = \<lparr> user_id = ''u2'', role = ''CLIENT'' \<rparr>"

definition tasker :: current_user where
  "tasker = \<lparr> user_id = ''u3'', role = ''TASKER'' \<rparr>"

definition falsy_patch :: TaskUpdateRequest where
  "falsy_patch = empty_patch \<lparr> u_title := Some [], u_durationEstMins := Some 0,
      u_priceGHS := Some 0 \<rparr>"

definition valid_draft :: TaskCreateRequest where
  "valid_draft =
     \<lparr> c_title = ''Paint'', c_description = ''Paint the garden fence white'',
       c_categoryId = ''MAINTENANCE'', c_addressId = ''a2'', c_scheduledAt = 200,
       c_durationEstMins = 90, c_priceGHS = 10, c_priority = MEDIUM, c_isUrgent = False,
       c_location = Some ''Accra'', c_requirements = None \<rparr>"

definition tasker_u1 :: current_user where
  "tasker_u1 = \<lparr> user_id = ''u1'', role = ''TASKER'' \<rparr>"



section \<open>Lemmas about double-precision arithmetic\<close>

lemma bit_length_numeral [simp]:
  "bit_length 0 = 0" "bit_length 1 = 1" "bit_length (Suc 0) = 1"
  "bit_length (numeral (Num.Bit0 k)) = Suc (bit_length (numeral k))"
  "bit_length (numeral (Num.Bit1 k)) = Suc (bit_length (numeral k))"
  "bit_length (numeral Num.One) = 1"
  by (subst bit_length.simps, simp add: numeral_Bit0_div_2 numeral_Bit1_div_2 bit_length.simps)+

lemmas round_defs = round_to_double_def binary_exponent_def round_half_even_def Let_def

lemma literal_0_05: "round_to_double 0.05 = 3602879701896397 / 72057594037927936"
  by (simp add: round_defs)

lemma fee_of_100: "float_mul 100 (round_to_double 0.05) = 5"
  unfolding float_mul_def literal_0_05 by (simp add: round_defs)

lemma fee_of_10: "float_mul 10 (round_to_double 0.05) = 1 / 2"
  unfolding float_mul_def literal_0_05 by (simp add: round_defs)

lemma fee_of_12: "float_mul 12 (round_to_double 0.05) = 5404319552844596 / 9007199254740992"
  unfolding float_mul_def literal_0_05 by (simp add: round_defs)

lemma double_nearest_0_6: "round_to_double (12 * 0.05) = 5404319552844595 / 9007199254740992"
  by (simp add: round_defs)

lemma bit_length_bounds:
  "0 < n \<Longrightarrow> 2 ^ (bit_length n - 1) \<le> n \<and> n < 2 ^ bit_length n"
proof (induction n rule: bit_length.induct)
  case (1 n)
  show ?case
  proof (cases "n div 2 = 0")
    case True
    with "1.prems" have "n = 1" by (auto simp: div_eq_0_iff)
    then show ?thesis by simp
  next
    case False
    then have pos: "0 < n div 2" by simp
    have ih: "2 ^ (bit_length (n div 2) - 1) \<le> n div 2 \<and> n div 2 < 2 ^ bit_length (n div 2)"
      using "1.IH" "1.prems" pos by simp
    have bl: "bit_length n = Suc (bit_length (n div 2))"
      using "1.prems" by (subst bit_length.simps) simp
    have gt: "0 < bit_length (n div 2)"
      using pos by (subst bit_length.simps) simp
    define k :: nat where "k = 2 ^ (bit_length (n div 2) - 1)"
    have two_k: "2 ^ bit_length (n div 2) = 2 * k"
      using gt by (cases "bit_length (n div 2)") (simp_all add: k_def)
    have "k \<le> n div 2" and "n div 2 < 2 * k"
      using ih by (simp_all add: k_def two_k)
    then have "2 * k \<le> n" and "n < 2 * (2 * k)"
      by linarith+
    then show ?thesis
      by (simp add: bl two_k k_def)
  qed
qed

lemma binary_exponent_le:
  assumes "0 < x"
  shows "2 powi (binary_exponent x) \<le> x"
proof (cases "1 \<le> x")
  case True
  define n where "n = nat \<lfloor>x\<rfloor>"
  have n: "0 < n" "real n \<le> x"
    using True by (simp_all add: n_def)
  have e: "binary_exponent x = int (bit_length n - 1)"
    using True n(1) bit_length_bounds [of n]
    by (cases "bit_length n") (simp_all add: binary_exponent_def n_def)
  have "real (2 ^ (bit_length n - 1)) \<le> real n"
    using bit_length_bounds [OF n(1)] by (simp only: of_nat_le_iff)
  then have "(2::real) ^ (bit_length n - 1) \<le> real n"
    by simp
  then have "(2::real) ^ (bit_length n - 1) \<le> x"
    using n(2) by (rule order_trans)
  then show ?thesis
    by (simp add: e)
next
  case False
  define m where "m = nat (\<lceil>1 / x\<rceil> - 1)"
  have "1 < 1 / x" using False assms by simp
  then have c: "2 \<le> \<lceil>1 / x\<rceil>" by linarith
  then have m: "0 < m" "1 / x \<le> real m + 1"
    by (simp_all add: m_def) linarith
  have "real m < real (2 ^ bit_length m)"
    using bit_length_bounds [OF m(1)] by (simp del: of_nat_power)
  then have "real m + 1 \<le> 2 ^ bit_length m"
    by (metis Suc_leI bit_length_bounds m(1) of_nat_Suc of_nat_le_iff of_nat_numeral
        of_nat_power add.commute)
  with m(2) have "1 / x \<le> 2 ^ bit_length m" by simp
  then have "1 / 2 ^ bit_length m \<le> x"
    using assms by (simp add: field_simps)
  moreover have "binary_exponent x = - int (bit_length m)"
    using False by (simp add: binary_exponent_def m_def)
  ultimately show ?thesis
    by (simp add: power_int_minus field_simps)
qed

lemma binary_exponent_ge:
  assumes "1 / 2 \<le> x"
  shows "- 1 \<le> binary_exponent x"
proof (cases "1 \<le> x")
  case True
  then have "0 < nat \<lfloor>x\<rfloor>" by simp
  then have "0 < bit_length (nat \<lfloor>x\<rfloor>)"
    by (subst bit_length.simps) simp
  with True show ?thesis by (simp add: binary_exponent_def)
next
  case False
  have "1 / x \<le> 2" using assms by (simp add: field_simps)
  then have "\<lceil>1 / x\<rceil> \<le> 2" by (simp add: ceiling_le_iff)
  then have "nat (\<lceil>1 / x\<rceil> - 1) = 0 \<or> nat (\<lceil>1 / x\<rceil> - 1) = 1" by linarith
  then have "bit_length (nat (\<lceil>1 / x\<rceil> - 1)) \<le> 1" by auto
  with False show ?thesis by (simp add: binary_exponent_def)
qed

lemma round_half_even_error: "\<bar>real_of_int (round_half_even y) - y\<bar> \<le> 1 / 2"
  unfolding round_half_even_def Let_def by (auto; linarith)

text \<open>From one half upwards, rounding moves a number by at most its \<open>2 ^ 53\<close>th part.\<close>

lemma round_to_double_error:
  assumes "1 / 2 \<le> x"
  shows "\<bar>round_to_double x - x\<bar> \<le> x / 2 ^ 53"
proof -
  have pos: "0 < x" using assms by simp
  define e where "e = binary_exponent x"
  define ulp :: real where "ulp = 2 powi (e - 52)"
  have e: "- 1 \<le> e" "2 powi e \<le> x"
    using binary_exponent_ge [OF assms] binary_exponent_le [OF pos] by (simp_all add: e_def)
  have ulp_pos: "0 < ulp" by (simp add: ulp_def)
  have ulp_le: "ulp \<le> x / 2 ^ 52"
    using e(2) by (simp add: ulp_def power_int_diff field_simps)
  have r: "round_to_double x = of_int (round_half_even (x / ulp)) * ulp"
    using pos e(1) by (simp add: round_to_double_def Let_def ulp_def e_def max_def)
  have "round_to_double x - x = (of_int (round_half_even (x / ulp)) - x / ulp) * ulp"
    using ulp_pos by (simp add: r field_simps)
  then have "\<bar>round_to_double x - x\<bar>
      = \<bar>of_int (round_half_even (x / ulp)) - x / ulp\<bar> * ulp"
    using ulp_pos by (simp add: abs_mult)
  also have "\<dots> \<le> 1 / 2 * ulp"
    using round_half_even_error ulp_pos by (intro mult_right_mono) simp_all
  also have "\<dots> \<le> x / 2 ^ 53"
    using ulp_le by simp
  finally show ?thesis .
qed

lemma fee_error:
  assumes "10 \<le> p"
  shows "\<bar>float_mul p (round_to_double 0.05) - p * 0.05\<bar> \<le> p * 0.05 / 2 ^ 52"
proof -
  let ?c = "3602879701896397 / 72057594037927936 :: real"
  have x: "1 / 2 \<le> p * ?c" using assms by simp
  have "\<bar>round_to_double (p * ?c) - p * ?c\<bar> \<le> p * ?c / 2 ^ 53"
    using x by (rule round_to_double_error)
  moreover have "\<bar>p * ?c - p * 0.05\<bar> = p / 360287970189639680"
    using assms by (simp add: abs_if field_simps)
  ultimately have "\<bar>round_to_double (p * ?c) - p * 0.05\<bar>
      \<le> p * ?c / 2 ^ 53 + p / 360287970189639680"
    by linarith
  also have "\<dots> \<le> p * 0.05 / 2 ^ 52"
    using assms by (simp add: field_simps)
  finally show ?thesis
    unfolding float_mul_def literal_0_05 .
qed

section \<open>Lemmas about the update\<close>

lemmas example_defs = example_task_def example_db_def empty_patch_def owner_def other_client_def

lemmas update_defs = update_task_def fetchone_def update_fields_def update_where_id_def
  set_fields_def str_opt_def

subsection \<open>What an assignment leaves alone\<close>

lemma assign_frame:
  "id' (assign a t) = id' t" "clientId (assign a t) = clientId t"
  "taskerId (assign a t) = taskerId t" "categoryId (assign a t) = categoryId t"
  "addressId (assign a t) = addressId t" "platformFeeGHS (assign a t) = platformFeeGHS t"
  "currency (assign a t) = currency t" "location (assign a t) = location t"
  "coordinates (assign a t) = coordinates t" "requirements (assign a t) = requirements t"
  "images (assign a t) = images t" "completionNotes (assign a t) = completionNotes t"
  "createdAt (assign a t) = createdAt t"
  by (cases a; simp)+

lemma fold_assign_frame:
  "id' (fold assign fs t) = id' t" "clientId (fold assign fs t) = clientId t"
  "taskerId (fold assign fs t) = taskerId t" "categoryId (fold assign fs t) = categoryId t"
  "addressId (fold assign fs t) = addressId t"
  "platformFeeGHS (fold assign fs t) = platformFeeGHS t"
  "currency (fold assign fs t) = currency t" "location (fold assign fs t) = location t"
  "coordinates (fold assign fs t) = coordinates t"
  "requirements (fold assign fs t) = requirements t"
  "images (fold assign fs t) = images t"
  "completionNotes (fold assign fs t) = completionNotes t"
  "createdAt (fold assign fs t) = createdAt t"
  by (induction fs arbitrary: t; simp add: assign_frame)+

subsection \<open>What the assignments of a patch write\<close>

lemma title_written:
  "title (fold assign (update_fields r) t) =
     (case u_title r of Some v \<Rightarrow> if v \<noteq> [] then v else title t | None \<Rightarrow> title t)"
  by (simp add: update_fields_def split: option.splits)

lemma description_written:
  "description (fold assign (update_fields r) t) =
     (case u_description r of
        Some v \<Rightarrow> if v \<noteq> [] then v else description t | None \<Rightarrow> description t)"
  by (simp add: update_fields_def split: option.splits)

lemma scheduledAt_written:
  "scheduledAt (fold assign (update_fields r) t) =
     (case u_scheduledAt r of Some v \<Rightarrow> v | None \<Rightarrow> scheduledAt t)"
  by (simp add: update_fields_def split: option.splits)

lemma durationEstMins_written:
  "durationEstMins (fold assign (update_fields r) t) =
     (case u_durationEstMins r of
        Some v \<Rightarrow> if v \<noteq> 0 then v else durationEstMins t | None \<Rightarrow> durationEstMins t)"
  by (simp add: update_fields_def split: option.splits)

lemma priceGHS_written:
  "priceGHS (fold assign (update_fields r) t) =
     (case u_priceGHS r of
        Some v \<Rightarrow> if v \<noteq> 0 then v else priceGHS t | None \<Rightarrow> priceGHS t)"
  by (simp add: update_fields_def split: option.splits)

lemma priority_written:
  "priority (fold assign (update_fields r) t) =
     (case u_priority r of Some v \<Rightarrow> v | None \<Rightarrow> priority t)"
  by (simp add: update_fields_def split: option.splits)

lemma isUrgent_written:
  "isUrgent (fold assign (update_fields r) t) =
     (case u_isUrgent r of Some v \<Rightarrow> v | None \<Rightarrow> isUrgent t)"
  by (simp add: update_fields_def split: option.splits)

lemma status_written:
  "status (fold assign (update_fields r) t) =
     (case u_status r of Some v \<Rightarrow> v | None \<Rightarrow> status t)"
  by (simp add: update_fields_def split: option.splits)

lemmas fields_written = title_written description_written scheduledAt_written
  durationEstMins_written priceGHS_written priority_written isUrgent_written status_written

lemma update_task_success:
  assumes "update_task d now task_id request cu = (Inr (), d')"
  shows "d' = update_where_id (set_fields (update_fields request) now) task_id d"
  using assms
  by (auto simp add: update_task_def split: option.splits if_splits list.splits)

lemma update_task_no_fields:
  assumes "fetchone d task_id = Some task" and "update_fields request = []"
  shows "update_task d now task_id request cu = (Inl (HTTPException 400), d)"
  using assms by (auto simp add: update_task_def)

lemma update_task_never_forbidden:
  "fst (update_task d now task_id request cu) \<noteq> Inl (HTTPException 403)"
  by (auto simp add: update_task_def split: option.splits list.splits)

section \<open>Lemmas about creation\<close>

lemmas create_defs = create_task_def validate_create_def validate_title_def
  validate_description_def validate_price_def

lemma validate_create_Nil:
  "validate_create request = []
     \<longleftrightarrow> 5 \<le> length (c_title request) \<and> 20 \<le> length (c_description request)
         \<and> 10 \<le> c_priceGHS request"
  by (auto simp add: validate_create_def validate_title_def validate_description_def
        validate_price_def)

lemma create_task_rejected:
  "(\<exists>is. fst (create_task d new_id now request cu) = Inl (RequestValidationError is))
     \<longleftrightarrow> validate_create request \<noteq> []"
  by (auto simp add: create_task_def split: list.splits)

lemma create_task_accepted:
  assumes "validate_create request = []" and "new_id \<notin> set (map id' d)"
  shows "create_task d new_id now request cu
           = (Inr new_id, d @ [task_data new_id now cu request])"
  using assms by (simp add: create_task_def)

lemma task_data_platformFeeGHS:
  "platformFeeGHS (task_data new_id now cu request)
     = float_mul (c_priceGHS request) (round_to_double 0.05)"
  by (simp add: task_data_def)

lemma task_data_priceGHS: "priceGHS (task_data new_id now cu request) = c_priceGHS request"
  by (simp add: task_data_def)

lemma create_task_never_400:
  "fst (create_task d new_id now request cu) \<noteq> Inl (HTTPException 400)"
  by (simp add: create_task_def split: list.splits)

lemma platformFeeGHS_update_where_id:
  "map platformFeeGHS (update_where_id (set_fields fs now) task_id d) = map platformFeeGHS d"
  by (simp add: update_where_id_def set_fields_def fold_assign_frame)

lemma update_task_platformFeeGHS:
  "map platformFeeGHS (snd (update_task d now task_id request cu)) = map platformFeeGHS d"
  by (simp add: update_task_def platformFeeGHS_update_where_id
        split: option.splits list.splits)

section \<open>Lemmas about the listing\<close>





section \<open>The claims\<close>

text \<open>
  Claim C1: updateTask is permitted exactly for the owning CLIENT and the assigned TASKER,
  and everyone else receives 403. The permission test of \<open>update_task\<close> joins the
  CLIENT half and the TASKER half with \<open>and\<close>, and no role is both, so the test never
  fires (\<open>update_task_never_forbidden\<close>): here a CLIENT who does not own the task
  changes its title.
\<close>

theorem update_task_non_owner_not_forbidden:
  "update_task example_db 9 ''t1'' (empty_patch\<lparr>u_title := Some ''Changed title''\<rparr>) other_client
     = (Inr (), [example_task\<lparr>title := ''Changed title'', updatedAt := Some 9\<rparr>])
   \<and> role other_client = ''CLIENT'' \<and> user_id other_client \<noteq> clientId example_task"
  by (simp add: update_defs example_defs)

text \<open>
  Claim C2, as stated: a caller whose role is TASKER or ADMIN, presenting a valid draft, is
  rejected with 403 and no task is stored. \<open>create_task\<close> never reads the role: a
  TASKER's valid draft is stored.
\<close>

theorem create_task_tasker_counterexample:
  "role tasker = ''TASKER''
   \<and> validate_create valid_draft = []
   \<and> create_task [] ''t9'' 7 valid_draft tasker
       = (Inr ''t9'', [task_data ''t9'' 7 tasker valid_draft])
   \<and> create_task [] ''t9'' 7 valid_draft tasker \<noteq> (Inl (HTTPException 403), [])"
  by (simp add: create_defs valid_draft_def tasker_def)

text \<open>
  Claim C2, amended: \<open>create_task\<close> does not depend on the caller's role and never
  answers 403; for a caller of any role, a draft that passes validation (with an id not yet
  in the table) is stored, with \<open>clientId\<close> the caller's id and status CREATED.
\<close>

theorem create_task_any_role:
  "create_task d new_id now request (cu\<lparr>role := r\<rparr>) = create_task d new_id now request cu
   \<and> fst (create_task d new_id now request cu) \<noteq> Inl (HTTPException 403)
   \<and> (validate_create request = [] \<and> new_id \<notin> set (map id' d)
       \<longrightarrow> create_task d new_id now request cu
             = (Inr new_id, d @ [task_data new_id now cu request])
           \<and> clientId (task_data new_id now cu request) = user_id cu
           \<and> status (task_data new_id now cu request) = CREATED)"
proof (intro conjI impI)
  show "create_task d new_id now request (cu\<lparr>role := r\<rparr>) = create_task d new_id now request cu"
    by (simp add: create_task_def task_data_def split: list.splits)
  show "fst (create_task d new_id now request cu) \<noteq> Inl (HTTPException 403)"
    by (simp add: create_task_def split: list.splits)
  show "clientId (task_data new_id now cu request) = user_id cu"
    by (simp add: task_data_def)
  show "status (task_data new_id now cu request) = CREATED"
    by (simp add: task_data_def)
next
  assume "validate_create request = [] \<and> new_id \<notin> set (map id' d)"
  then show "create_task d new_id now request cu
               = (Inr new_id, d @ [task_data new_id now cu request])"
    by (simp add: create_task_accepted)
qed

theorem create_task_any_role_witness:
  "validate_create valid_draft = [] \<and> ''t9'' \<notin> set (map id' example_db)
   \<and> create_task example_db ''t9'' 7 valid_draft (tasker\<lparr>role := ''ADMIN''\<rparr>)
       = (Inr ''t9'', example_db @ [task_data ''t9'' 7 tasker valid_draft])
   \<and> clientId (task_data ''t9'' 7 tasker valid_draft) = ''u3''"
proof -
  have v: "validate_create valid_draft = [] \<and> ''t9'' \<notin> set (map id' example_db)"
    by (simp add: create_defs valid_draft_def example_defs)
  show ?thesis
    using v create_task_any_role
      [where d = example_db and new_id = "''t9''" and now = 7 and request = valid_draft
         and cu = tasker and r = "''ADMIN''"]
    by (simp add: tasker_def)
qed

text \<open>
  Claim C3, as stated: a caller whose role is not CLIENT receives 403 from the
  cancellation even when the caller's id is the task's \<open>clientId\<close>. \<open>delete_task\<close>
  compares the ids only: a TASKER whose id is the task's \<open>clientId\<close> cancels it.
\<close>

theorem delete_task_tasker_counterexample:
  "role tasker_u1 \<noteq> ''CLIENT''
   \<and> delete_task example_db 9 ''t1'' tasker_u1
       = (Inr (), [example_task\<lparr>status := CANCELLED, updatedAt := Some 9\<rparr>])
   \<and> delete_task example_db 9 ''t1'' tasker_u1 \<noteq> (Inl (HTTPException 403), example_db)"
  by (simp add: delete_task_def fetchone_def update_where_id_def tasker_u1_def example_defs)

text \<open>
  Claim C3, amended: on an existing task, \<open>delete_task\<close> succeeds (status CANCELLED,
  \<open>updatedAt\<close> stamped) exactly when the caller's id is the task's \<open>clientId\<close>, whatever
  the caller's role and the task's status; every other caller receives 403 and the table
  is unchanged.
\<close>

theorem delete_task_owner_only:
  assumes "fetchone d task_id = Some task"
  shows "(user_id cu = clientId task
          \<longrightarrow> delete_task d now task_id cu
                = (Inr (), update_where_id
                             (\<lambda>t. t\<lparr>status := CANCELLED, updatedAt := Some now\<rparr>) task_id d))
       \<and> (user_id cu \<noteq> clientId task
          \<longrightarrow> delete_task d now task_id cu = (Inl (HTTPException 403), d))"
  using assms by (simp add: delete_task_def)

theorem delete_task_owner_only_witness:
  "fetchone example_db ''t1'' = Some example_task
   \<and> delete_task example_db 9 ''t1'' tasker_u1
       = (Inr (), [example_task\<lparr>status := CANCELLED, updatedAt := Some 9\<rparr>])
   \<and> delete_task example_db 9 ''t1'' other_client = (Inl (HTTPException 403), example_db)"
proof -
  have f: "fetchone example_db ''t1'' = Some example_task"
    by (simp add: fetchone_def example_defs)
  show ?thesis
    using f delete_task_owner_only [OF f, where cu = tasker_u1 and now = 9]
      delete_task_owner_only [OF f, where cu = other_client and now = 9]
    by (simp add: tasker_u1_def update_where_id_def example_defs)
qed

text \<open>
  Claim C4: no operation lets a persisted price drop below 10.00. \<open>create_task\<close>
  checks the minimum, \<open>update_task\<close> does not: the owner sets the price of a task to 5.
\<close>

theorem update_task_price_below_minimum:
  "update_task example_db 9 ''t1'' (empty_patch\<lparr>u_priceGHS := Some 5\<rparr>) owner
     = (Inr (), [example_task\<lparr>priceGHS := 5, updatedAt := Some 9\<rparr>])
   \<and> priceGHS (example_task\<lparr>priceGHS := 5, updatedAt := Some 9\<rparr>) < 10"
  by (simp add: update_defs example_defs)

text \<open>
  Claim C5, as stated: the stored fee equals exactly \<open>price * 0.05\<close>. \<open>create_task\<close>
  multiplies two doubles: for a price of 12 the stored fee is
  \<open>5404319552844596 / 2 ^ 53\<close> (printed 0.6000000000000001), which is neither 0.6 nor the
  double nearest to 0.6.
\<close>

theorem create_task_fee_counterexample:
  "validate_create (valid_draft\<lparr>c_priceGHS := 12\<rparr>) = []
   \<and> create_task example_db ''t9'' 7 (valid_draft\<lparr>c_priceGHS := 12\<rparr>) owner
       = (Inr ''t9'', example_db @ [task_data ''t9'' 7 owner (valid_draft\<lparr>c_priceGHS := 12\<rparr>)])
   \<and> platformFeeGHS (task_data ''t9'' 7 owner (valid_draft\<lparr>c_priceGHS := 12\<rparr>))
       = 5404319552844596 / 9007199254740992
   \<and> platformFeeGHS (task_data ''t9'' 7 owner (valid_draft\<lparr>c_priceGHS := 12\<rparr>)) \<noteq> 12 * 0.05
   \<and> platformFeeGHS (task_data ''t9'' 7 owner (valid_draft\<lparr>c_priceGHS := 12\<rparr>))
       \<noteq> round_to_double (12 * 0.05)"
proof -
  have v: "validate_create (valid_draft\<lparr>c_priceGHS := 12\<rparr>) = []"
    by (simp add: create_defs valid_draft_def)
  have fresh: "''t9'' \<notin> set (map id' example_db)"
    by (simp add: example_defs)
  have c: "create_task example_db ''t9'' 7 (valid_draft\<lparr>c_priceGHS := 12\<rparr>) owner
       = (Inr ''t9'', example_db @ [task_data ''t9'' 7 owner (valid_draft\<lparr>c_priceGHS := 12\<rparr>)])"
    using v fresh by (rule create_task_accepted)
  have fee: "platformFeeGHS (task_data ''t9'' 7 owner (valid_draft\<lparr>c_priceGHS := 12\<rparr>))
       = 5404319552844596 / 9007199254740992"
    unfolding task_data_platformFeeGHS using fee_of_12 by simp
  have nearest: "round_to_double (12 * 0.05) = 5404319552844595 / 9007199254740992"
    by (rule double_nearest_0_6)
  show ?thesis
    unfolding fee nearest using v c by simp
qed

text \<open>
  Claim C5, amended: for every draft with a finite price that passes validation (so the
  price is at least 10), the row \<open>create_task\<close> stores carries the draft's price and, as
  its fee, the double-precision product of the price and 0.05: the exact product of the
  price and the double nearest to 0.05, rounded to the nearest double. That fee differs
  from \<open>price * 0.05\<close> by at most \<open>price * 0.05 / 2 ^ 52\<close>; it is 5 for a price of 100 and
  0.5 for a price of 10. The request has no fee field, and \<open>update_task\<close> leaves every
  stored fee as it is.
\<close>

theorem create_task_platform_fee:
  "(validate_create request = [] \<and> new_id \<notin> set (map id' d)
    \<longrightarrow> (\<exists>row. create_task d new_id now request cu = (Inr new_id, d @ [row])
            \<and> priceGHS row = c_priceGHS request \<and> 10 \<le> priceGHS row
            \<and> platformFeeGHS row
                = round_to_double (c_priceGHS request * round_to_double 0.05)
            \<and> \<bar>platformFeeGHS row - c_priceGHS request * 0.05\<bar>
                \<le> c_priceGHS request * 0.05 / 2 ^ 52
            \<and> (c_priceGHS request = 100 \<longrightarrow> platformFeeGHS row = 5)
            \<and> (c_priceGHS request = 10 \<longrightarrow> platformFeeGHS row = 0.5)))
   \<and> map platformFeeGHS (snd (update_task d now task_id patch cu)) = map platformFeeGHS d"
proof (intro conjI impI)
  let ?row = "task_data new_id now cu request"
  assume v: "validate_create request = [] \<and> new_id \<notin> set (map id' d)"
  then have c: "create_task d new_id now request cu = (Inr new_id, d @ [?row])"
    by (simp add: create_task_accepted)
  have p: "10 \<le> c_priceGHS request"
    using v by (simp add: validate_create_Nil)
  have price: "priceGHS ?row = c_priceGHS request"
    by (rule task_data_priceGHS)
  have fee: "platformFeeGHS ?row = round_to_double (c_priceGHS request * round_to_double 0.05)"
    unfolding task_data_platformFeeGHS float_mul_def ..
  have err: "\<bar>platformFeeGHS ?row - c_priceGHS request * 0.05\<bar>
               \<le> c_priceGHS request * 0.05 / 2 ^ 52"
    unfolding task_data_platformFeeGHS using p by (rule fee_error)
  have f100: "c_priceGHS request = 100 \<longrightarrow> platformFeeGHS ?row = 5"
    unfolding task_data_platformFeeGHS using fee_of_100 by simp
  have f10: "c_priceGHS request = 10 \<longrightarrow> platformFeeGHS ?row = 0.5"
    unfolding task_data_platformFeeGHS using fee_of_10 by simp
  have "create_task d new_id now request cu = (Inr new_id, d @ [?row])
            \<and> priceGHS ?row = c_priceGHS request \<and> 10 \<le> priceGHS ?row
            \<and> platformFeeGHS ?row
                = round_to_double (c_priceGHS request * round_to_double 0.05)
            \<and> \<bar>platformFeeGHS ?row - c_priceGHS request * 0.05\<bar>
                \<le> c_priceGHS request * 0.05 / 2 ^ 52
            \<and> (c_priceGHS request = 100 \<longrightarrow> platformFeeGHS ?row = 5)
            \<and> (c_priceGHS request = 10 \<longrightarrow> platformFeeGHS ?row = 0.5)"
    using c p price fee err f100 f10 by (simp only: simp_thms)
  then show "\<exists>row. create_task d new_id now request cu = (Inr new_id, d @ [row])
            \<and> priceGHS row = c_priceGHS request \<and> 10 \<le> priceGHS row
            \<and> platformFeeGHS row
                = round_to_double (c_priceGHS request * round_to_double 0.05)
            \<and> \<bar>platformFeeGHS row - c_priceGHS request * 0.05\<bar>
                \<le> c_priceGHS request * 0.05 / 2 ^ 52
            \<and> (c_priceGHS request = 100 \<longrightarrow> platformFeeGHS row = 5)
            \<and> (c_priceGHS request = 10 \<longrightarrow> platformFeeGHS row = 0.5)"
    by (rule exI)
next
  show "map platformFeeGHS (snd (update_task d now task_id patch cu)) = map platformFeeGHS d"
    by (rule update_task_platformFeeGHS)
qed

theorem create_task_platform_fee_witness:
  "validate_create (valid_draft\<lparr>c_priceGHS := 100\<rparr>) = []
   \<and> ''t9'' \<notin> set (map id' example_db)
   \<and> (\<exists>row. create_task example_db ''t9'' 7 (valid_draft\<lparr>c_priceGHS := 100\<rparr>) owner
               = (Inr ''t9'', example_db @ [row])
            \<and> priceGHS row = 100 \<and> platformFeeGHS row = 5)"
proof -
  have v: "validate_create (valid_draft\<lparr>c_priceGHS := 100\<rparr>) = []
           \<and> ''t9'' \<notin> set (map id' example_db)"
    by (simp add: create_defs valid_draft_def example_defs)
  have p: "c_priceGHS (valid_draft\<lparr>c_priceGHS := 100\<rparr>) = 100"
    by simp
  show ?thesis
    using v p create_task_platform_fee
      [where request = "valid_draft\<lparr>c_priceGHS := 100\<rparr>" and new_id = "''t9''"
         and d = example_db and now = 7 and cu = owner and task_id = "''t1''"
         and patch = empty_patch]
    by auto
qed

text \<open>
  Claim C6: \<open>update_task\<close> with a patch that supplies no field, on an existing task and
  for a caller who is its owning CLIENT or its assigned TASKER, fails with status 400 and
  leaves the table as it was (no row, and so no \<open>updatedAt\<close>, is written).
\<close>

theorem update_task_empty_patch:
  assumes "fetchone d task_id = Some task"
    and "(role cu = ''CLIENT'' \<and> user_id cu = clientId task)
         \<or> (role cu = ''TASKER'' \<and> Some (user_id cu) = taskerId task)"
  shows "update_task d now task_id
           \<lparr> u_title = None, u_description = None, u_scheduledAt = None,
             u_durationEstMins = None, u_priceGHS = None, u_priority = None,
             u_isUrgent = None, u_status = None \<rparr> cu
         = (Inl (HTTPException 400), d)"
  using assms(1) by (intro update_task_no_fields) (simp_all add: update_fields_def)

theorem update_task_empty_patch_witness:
  "fetchone example_db ''t1'' = Some example_task
   \<and> role owner = ''CLIENT'' \<and> user_id owner = clientId example_task
   \<and> update_task example_db 9 ''t1'' empty_patch owner = (Inl (HTTPException 400), example_db)"
proof -
  have f: "fetchone example_db ''t1'' = Some example_task"
    by (simp add: fetchone_def example_defs)
  have a: "(role owner = ''CLIENT'' \<and> user_id owner = clientId example_task)
           \<or> (role owner = ''TASKER'' \<and> Some (user_id owner) = taskerId example_task)"
    by (simp add: example_defs)
  show ?thesis
    using f a update_task_empty_patch [OF f a, of 9]
    by (simp add: example_defs)
qed

text \<open>
  Claim C7, as stated: a draft that violates validation makes \<open>create_task\<close> raise
  BadRequest (status 400). The validators raise \<open>ValueError\<close> while the body is parsed,
  which is the framework's request validation error; no handler turns it into status
  400: a title of 4 characters is answered with that error, not with an \<open>HTTPException\<close>
  of status 400.
\<close>

theorem create_task_short_title_counterexample:
  "length (c_title (valid_draft\<lparr>c_title := ''Pain''\<rparr>)) = 4
   \<and> create_task example_db ''t9'' 7 (valid_draft\<lparr>c_title := ''Pain''\<rparr>) owner
       = (Inl (RequestValidationError [TitleTooShort]), example_db)
   \<and> fst (create_task example_db ''t9'' 7 (valid_draft\<lparr>c_title := ''Pain''\<rparr>) owner)
       \<noteq> Inl (HTTPException 400)"
  by (simp add: create_defs valid_draft_def)

text \<open>
  Claim C7, amended: \<open>create_task\<close> never answers with status 400; it is rejected with the
  framework's request validation error exactly when the title has fewer than 5
  characters, the description fewer than 20, or the price is below 10; a rejected draft
  leaves the table untouched; a title of 4 characters and a price of 9.99 are rejected,
  and a draft with a title of 5 characters, a long enough description and a price of 10
  is accepted.
\<close>

theorem create_task_validation:
  "((\<exists>is. fst (create_task d new_id now request cu) = Inl (RequestValidationError is))
      \<longleftrightarrow> length (c_title request) < 5 \<or> length (c_description request) < 20
          \<or> c_priceGHS request < 10)
   \<and> ((\<exists>is. fst (create_task d new_id now request cu) = Inl (RequestValidationError is))
      \<longrightarrow> snd (create_task d new_id now request cu) = d)
   \<and> (length (c_title request) = 4
      \<longrightarrow> (\<exists>is. fst (create_task d new_id now request cu) = Inl (RequestValidationError is)))
   \<and> (c_priceGHS request = 9.99
      \<longrightarrow> (\<exists>is. fst (create_task d new_id now request cu) = Inl (RequestValidationError is)))
   \<and> (5 \<le> length (c_title request) \<and> 20 \<le> length (c_description request)
        \<and> 10 \<le> c_priceGHS request \<and> new_id \<notin> set (map id' d)
      \<longrightarrow> fst (create_task d new_id now request cu) = Inr new_id)
   \<and> fst (create_task d new_id now request cu) \<noteq> Inl (HTTPException 400)"
proof -
  have iff: "(\<exists>is. fst (create_task d new_id now request cu) = Inl (RequestValidationError is))
      \<longleftrightarrow> length (c_title request) < 5 \<or> length (c_description request) < 20
          \<or> c_priceGHS request < 10"
    unfolding create_task_rejected validate_create_Nil by auto
  have unchanged: "snd (create_task d new_id now request cu) = d"
    if "\<exists>is. fst (create_task d new_id now request cu) = Inl (RequestValidationError is)"
    using that by (auto simp add: create_task_def split: list.splits if_splits)
  have ok: "fst (create_task d new_id now request cu) = Inr new_id"
    if "5 \<le> length (c_title request) \<and> 20 \<le> length (c_description request)
        \<and> 10 \<le> c_priceGHS request \<and> new_id \<notin> set (map id' d)"
    using that create_task_accepted [of request new_id d now cu]
    by (simp add: validate_create_Nil)
  show ?thesis
    using iff unchanged ok create_task_never_400 [of d new_id now request cu] by auto
qed

theorem create_task_validation_witness:
  "length (c_title valid_draft) = 5 \<and> c_priceGHS valid_draft = 10
   \<and> fst (create_task example_db ''t9'' 7 valid_draft owner) = Inr ''t9''
   \<and> (\<exists>is. fst (create_task example_db ''t9'' 7 (valid_draft\<lparr>c_title := ''Pain''\<rparr>) owner)
             = Inl (RequestValidationError is))
   \<and> snd (create_task example_db ''t9'' 7 (valid_draft\<lparr>c_title := ''Pain''\<rparr>) owner)
       = example_db
   \<and> (\<exists>is. fst (create_task example_db ''t9'' 7 (valid_draft\<lparr>c_priceGHS := 9.99\<rparr>) owner)
             = Inl (RequestValidationError is))"
proof -
  have v: "length (c_title valid_draft) = 5 \<and> 20 \<le> length (c_description valid_draft)
           \<and> c_priceGHS valid_draft = 10 \<and> ''t9'' \<notin> set (map id' example_db)"
    by (simp add: valid_draft_def example_defs)
  show ?thesis
    using v
      create_task_validation [where d = example_db and new_id = "''t9''" and now = 7
        and request = valid_draft and cu = owner]
      create_task_validation [where d = example_db and new_id = "''t9''" and now = 7
        and request = "valid_draft\<lparr>c_title := ''Pain''\<rparr>" and cu = owner]
      create_task_validation [where d = example_db and new_id = "''t9''" and now = 7
        and request = "valid_draft\<lparr>c_priceGHS := 9.99\<rparr>" and cu = owner]
    by simp
qed



text \<open>
  Claim C9: a successful \<open>update_task\<close> keeps the number of rows; in every row the
  columns \<open>id\<close>, \<open>clientId\<close>, \<open>taskerId\<close>, \<open>platformFeeGHS\<close>, \<open>currency\<close>, \<open>categoryId\<close>,
  \<open>addressId\<close>, \<open>createdAt\<close>, \<open>location\<close>, \<open>coordinates\<close>, \<open>requirements\<close>, \<open>images\<close> and
  \<open>completionNotes\<close> are unchanged; a patchable column whose field is absent from the
  patch is unchanged; and a row with another id is unchanged altogether.
\<close>

theorem update_task_frame:
  assumes "update_task d now task_id request cu = (Inr (), d')"
  shows "length d' = length d \<and>
    (\<forall>i < length d.
       id' (d' ! i) = id' (d ! i) \<and> clientId (d' ! i) = clientId (d ! i)
     \<and> taskerId (d' ! i) = taskerId (d ! i)
     \<and> platformFeeGHS (d' ! i) = platformFeeGHS (d ! i)
     \<and> currency (d' ! i) = currency (d ! i) \<and> categoryId (d' ! i) = categoryId (d ! i)
     \<and> addressId (d' ! i) = addressId (d ! i) \<and> createdAt (d' ! i) = createdAt (d ! i)
     \<and> location (d' ! i) = location (d ! i) \<and> coordinates (d' ! i) = coordinates (d ! i)
     \<and> requirements (d' ! i) = requirements (d ! i) \<and> images (d' ! i) = images (d ! i)
     \<and> completionNotes (d' ! i) = completionNotes (d ! i)
     \<and> (u_title request = None \<longrightarrow> title (d' ! i) = title (d ! i))
     \<and> (u_description request = None \<longrightarrow> description (d' ! i) = description (d ! i))
     \<and> (u_scheduledAt request = None \<longrightarrow> scheduledAt (d' ! i) = scheduledAt (d ! i))
     \<and> (u_durationEstMins request = None
          \<longrightarrow> durationEstMins (d' ! i) = durationEstMins (d ! i))
     \<and> (u_priceGHS request = None \<longrightarrow> priceGHS (d' ! i) = priceGHS (d ! i))
     \<and> (u_priority request = None \<longrightarrow> priority (d' ! i) = priority (d ! i))
     \<and> (u_isUrgent request = None \<longrightarrow> isUrgent (d' ! i) = isUrgent (d ! i))
     \<and> (u_status request = None \<longrightarrow> status (d' ! i) = status (d ! i))
     \<and> (id' (d ! i) \<noteq> task_id \<longrightarrow> d' ! i = d ! i))"
proof -
  have d': "d' = update_where_id (set_fields (update_fields request) now) task_id d"
    using assms by (rule update_task_success)
  have len: "length d' = length d"
    by (simp add: d' update_where_id_def)
  have row: "d' ! i = (if id' (d ! i) = task_id
                       then set_fields (update_fields request) now (d ! i) else d ! i)"
    if "i < length d" for i
    using that by (simp add: d' update_where_id_def)
  show ?thesis
    using len row
    by (simp add: set_fields_def fold_assign_frame fields_written)
qed

theorem update_task_frame_witness:
  "update_task example_db 9 ''t1'' (empty_patch\<lparr>u_title := Some ''Changed title''\<rparr>) owner
     = (Inr (), [example_task\<lparr>title := ''Changed title'', updatedAt := Some 9\<rparr>])
   \<and> clientId (example_task\<lparr>title := ''Changed title'', updatedAt := Some 9\<rparr>) = ''u1''
   \<and> priceGHS (example_task\<lparr>title := ''Changed title'', updatedAt := Some 9\<rparr>) = 100"
proof -
  have s: "update_task example_db 9 ''t1'' (empty_patch\<lparr>u_title := Some ''Changed title''\<rparr>) owner
     = (Inr (), [example_task\<lparr>title := ''Changed title'', updatedAt := Some 9\<rparr>])"
    by (simp add: update_defs example_defs)
  show ?thesis
    using s update_task_frame [OF s]
    by (simp add: example_defs)
qed

text \<open>
  Claim C10: \<open>update_task\<close> applies a supplied field only when its value is true in
  Python's sense, \<open>isUrgent\<close> whenever it is supplied. A patch whose title and description
  are absent or empty, whose duration and price are absent or zero and whose other fields
  are absent is rejected with status 400 and writes nothing; and after a successful update
  the row holds the patch's value where that value is true and its old value otherwise.
\<close>

theorem update_task_truthiness:
  "(fetchone d task_id = Some task
      \<and> u_title request \<in> {None, Some []} \<and> u_description request \<in> {None, Some []}
      \<and> u_durationEstMins request \<in> {None, Some 0} \<and> u_priceGHS request \<in> {None, Some 0}
      \<and> u_scheduledAt request = None \<and> u_priority request = None
      \<and> u_isUrgent request = None \<and> u_status request = None
    \<longrightarrow> update_task d now task_id request cu = (Inl (HTTPException 400), d))
   \<and> (update_task d now task_id request cu = (Inr (), d')
    \<longrightarrow> (\<forall>i < length d. id' (d ! i) = task_id \<longrightarrow>
          title (d' ! i)
            = (case u_title request of
                 Some v \<Rightarrow> if v \<noteq> [] then v else title (d ! i) | None \<Rightarrow> title (d ! i))
        \<and> description (d' ! i)
            = (case u_description request of
                 Some v \<Rightarrow> if v \<noteq> [] then v else description (d ! i)
               | None \<Rightarrow> description (d ! i))
        \<and> durationEstMins (d' ! i)
            = (case u_durationEstMins request of
                 Some v \<Rightarrow> if v \<noteq> 0 then v else durationEstMins (d ! i)
               | None \<Rightarrow> durationEstMins (d ! i))
        \<and> priceGHS (d' ! i)
            = (case u_priceGHS request of
                 Some v \<Rightarrow> if v \<noteq> 0 then v else priceGHS (d ! i)
               | None \<Rightarrow> priceGHS (d ! i))
        \<and> isUrgent (d' ! i)
            = (case u_isUrgent request of Some v \<Rightarrow> v | None \<Rightarrow> isUrgent (d ! i))))"
proof (intro conjI impI)
  assume h: "fetchone d task_id = Some task
      \<and> u_title request \<in> {None, Some []} \<and> u_description request \<in> {None, Some []}
      \<and> u_durationEstMins request \<in> {None, Some 0} \<and> u_priceGHS request \<in> {None, Some 0}
      \<and> u_scheduledAt request = None \<and> u_priority request = None
      \<and> u_isUrgent request = None \<and> u_status request = None"
  then have "update_fields request = []"
    by (auto simp add: update_fields_def)
  with h show "update_task d now task_id request cu = (Inl (HTTPException 400), d)"
    by (intro update_task_no_fields) simp_all
next
  assume "update_task d now task_id request cu = (Inr (), d')"
  then have d': "d' = update_where_id (set_fields (update_fields request) now) task_id d"
    by (rule update_task_success)
  show "\<forall>i < length d. id' (d ! i) = task_id \<longrightarrow>
          title (d' ! i)
            = (case u_title request of
                 Some v \<Rightarrow> if v \<noteq> [] then v else title (d ! i) | None \<Rightarrow> title (d ! i))
        \<and> description (d' ! i)
            = (case u_description request of
                 Some v \<Rightarrow> if v \<noteq> [] then v else description (d ! i)
               | None \<Rightarrow> description (d ! i))
        \<and> durationEstMins (d' ! i)
            = (case u_durationEstMins request of
                 Some v \<Rightarrow> if v \<noteq> 0 then v else durationEstMins (d ! i)
               | None \<Rightarrow> durationEstMins (d ! i))
        \<and> priceGHS (d' ! i)
            = (case u_priceGHS request of
                 Some v \<Rightarrow> if v \<noteq> 0 then v else priceGHS (d ! i)
               | None \<Rightarrow> priceGHS (d ! i))
        \<and> isUrgent (d' ! i)
            = (case u_isUrgent request of Some v \<Rightarrow> v | None \<Rightarrow> isUrgent (d ! i))"
    by (simp add: d' update_where_id_def set_fields_def fields_written)
qed

theorem update_task_truthiness_witness:
  "update_task example_db 9 ''t1'' falsy_patch owner = (Inl (HTTPException 400), example_db)
   \<and> update_task example_db 9 ''t1'' (falsy_patch\<lparr>u_isUrgent := Some False\<rparr>) owner
       = (Inr (), [example_task\<lparr>updatedAt := Some 9\<rparr>])
   \<and> title (example_task\<lparr>updatedAt := Some 9\<rparr>) = title example_task
   \<and> priceGHS (example_task\<lparr>updatedAt := Some 9\<rparr>) = priceGHS example_task"
proof -
  have f: "fetchone example_db ''t1'' = Some example_task"
    by (simp add: fetchone_def example_defs)
  have s: "update_task example_db 9 ''t1'' (falsy_patch\<lparr>u_isUrgent := Some False\<rparr>) owner
       = (Inr (), [example_task\<lparr>updatedAt := Some 9\<rparr>])"
    by (simp add: update_defs example_defs falsy_patch_def)
  show ?thesis
    using f s
      update_task_truthiness [of example_db "''t1''" example_task falsy_patch 9 owner example_db]
      update_task_truthiness [of example_db "''t1''" example_task
        "falsy_patch\<lparr>u_isUrgent := Some False\<rparr>" 9 owner "[example_task\<lparr>updatedAt := Some 9\<rparr>]"]
    by (simp add: falsy_patch_def empty_patch_def example_db_def)
qed

end
